theory Spec2Isabelle
  imports Complex_Main "HOL-Library.AList"
begin

section \<open>The worker's job manager (services/worker/src/worker/job\_manager.py)\<close>

text \<open>
  The job manager runs one job of one processing step: it calls the job runner's
  \<open>pre_compute\<close>, \<open>compute\<close> and \<open>post_compute\<close>, turns the outcome into a cache entry and
  then asks the dataset state to backfill. The embedding passes the state explicitly: a
  world is the cache store together with the trace of the calls made to the collaborators.
  A Python exception is a value of type \<open>exn\<close>; a call that may raise returns \<open>exn + 'a\<close>
  (\<open>Inl\<close> the exception raised) or \<open>exn option\<close> when it returns nothing. Only instances of
  \<open>Exception\<close> are modelled, which is what \<open>except Exception\<close> catches. Calls to
  \<open>logging\<close> change nothing that the job manager reads and are left out.
\<close>

subsection \<open>Values\<close>

datatype json =
    JNull
  | JBool bool
  | JInt int
  | JStr string
  | JList "json list"
  | JDict "(string \<times> json) list"

type_synonym pydict = "(string \<times> json) list"

text \<open>Python's \<open>str\<close> of an integer, used by the f-string of the size check.\<close>

fun str_nat :: "nat \<Rightarrow> string" where
  "str_nat n =
     (if n < 10 then [''0123456789'' ! n]
      else str_nat (n div 10) @ [''0123456789'' ! (n mod 10)])"

definition str_int :: "int \<Rightarrow> string" where
  "str_int i = (if i < 0 then CHR ''-'' # str_nat (nat (- i)) else str_nat (nat i))"

definition HTTPStatus_OK :: int where
  "HTTPStatus_OK = 200"

subsection \<open>libcommon.utils: job parameters and job info\<close>

record job_params =
  jp_dataset :: string
  jp_revision :: string
  jp_config :: "string option"
  jp_split :: "string option"

datatype priority = Low | Normal | High

record job_info =
  ji_type :: string
  ji_job_id :: string
  ji_params :: job_params
  ji_priority :: priority

subsection \<open>libcommon.simple\_cache: the cache store\<close>

record cache_entry =
  ce_content :: json
  ce_http_status :: int
  ce_error_code :: "string option"
  ce_details :: "pydict option"
  ce_job_runner_version :: "int option"
  ce_dataset_git_revision :: "string option"
  ce_progress :: "real option"

record cache_entry_without_content =
  cm_http_status :: int
  cm_error_code :: "string option"
  cm_job_runner_version :: "int option"
  cm_dataset_git_revision :: "string option"
  cm_progress :: "real option"

record cache_entry_with_details =
  cd_content :: json
  cd_http_status :: int
  cd_error_code :: "string option"
  cd_details :: pydict

type_synonym cache_key = "string \<times> job_params"

type_synonym cache_store = "cache_key \<Rightarrow> cache_entry option"

record artifact_id =
  ai_kind :: string
  ai_dataset :: string
  ai_config :: "string option"
  ai_split :: "string option"

subsection \<open>Exceptions\<close>

text \<open>
  Modelled from the spec: the classes of libcommon.exceptions, which job\_manager.py imports
  and which are not part of the sources at hand. Each is a \<open>CustomError\<close> that carries a
  stable code (the name of its class), an HTTP-like status other than 200, a message and an
  optional cause. \<open>OtherCustomError code status\<close> stands for the domain errors that the job
  runners define themselves.
\<close>

datatype error_class =
    DatasetNotFoundError
  | JobManagerCrashedError
  | JobManagerExceededMaximumDurationError
  | ResponseAlreadyComputedError
  | TooBigContentError
  | UnexpectedError
  | OtherCustomError string int

fun error_code :: "error_class \<Rightarrow> string" where
  "error_code DatasetNotFoundError = ''DatasetNotFoundError''"
| "error_code JobManagerCrashedError = ''JobManagerCrashedError''"
| "error_code JobManagerExceededMaximumDurationError = ''JobManagerExceededMaximumDurationError''"
| "error_code ResponseAlreadyComputedError = ''ResponseAlreadyComputedError''"
| "error_code TooBigContentError = ''TooBigContentError''"
| "error_code UnexpectedError = ''UnexpectedError''"
| "error_code (OtherCustomError c s) = c"

fun error_status_code :: "error_class \<Rightarrow> int" where
  "error_status_code DatasetNotFoundError = 404"
| "error_status_code JobManagerCrashedError = 501"
| "error_status_code JobManagerExceededMaximumDurationError = 501"
| "error_status_code ResponseAlreadyComputedError = 500"
| "error_status_code TooBigContentError = 501"
| "error_status_code UnexpectedError = 500"
| "error_status_code (OtherCustomError c s) = s"

text \<open>
  An exception is a \<open>CustomError\<close> of some class with its message and cause, the
  \<open>CachedArtifactError\<close> of libcommon.simple\_cache (message, the artifact it was read from
  and that artifact's cache entry), \<open>DoesNotExist\<close>, or any other \<open>Exception\<close> (the name of
  its class and its \<open>str\<close>).
\<close>

datatype exn =
    CustomError error_class string "exn option"
  | CachedArtifactError string artifact_id cache_entry_with_details
  | DoesNotExist string
  | OtherException string string

fun isinstance_CustomError :: "exn \<Rightarrow> bool" where
  "isinstance_CustomError (CustomError c m cause) = True"
| "isinstance_CustomError e = False"

fun exn_str :: "exn \<Rightarrow> string" where
  "exn_str (CustomError c m cause) = m"
| "exn_str (CachedArtifactError m a e) = m"
| "exn_str (DoesNotExist m) = m"
| "exn_str (OtherException n m) = m"

fun exn_class_name :: "exn \<Rightarrow> string" where
  "exn_class_name (CustomError c m cause) = error_code c"
| "exn_class_name (CachedArtifactError m a e) = ''CachedArtifactError''"
| "exn_class_name (DoesNotExist m) = ''DoesNotExist''"
| "exn_class_name (OtherException n m) = n"

text \<open>
  Modelled from the spec: the accessors of \<open>CustomError\<close> (code, status, the response
  \<open>{"error": message}\<close> and the response that also carries the original cause for
  diagnostics). They are applied to custom errors only; on any other exception they give
  what they give on its wrapping as an \<open>UnexpectedError\<close>.
\<close>

fun code :: "exn \<Rightarrow> string" where
  "code (CustomError c m cause) = error_code c"
| "code e = error_code UnexpectedError"

fun status_code :: "exn \<Rightarrow> int" where
  "status_code (CustomError c m cause) = error_status_code c"
| "status_code e = error_status_code UnexpectedError"

fun as_response :: "exn \<Rightarrow> pydict" where
  "as_response e = [(''error'', JStr (exn_str e))]"

fun as_response_with_cause :: "exn \<Rightarrow> pydict" where
  "as_response_with_cause (CustomError c m (Some cause)) =
     [(''error'', JStr m),
      (''cause_exception'', JStr (exn_class_name cause)),
      (''cause_message'', JStr (exn_str cause))]"
| "as_response_with_cause e = [(''error'', JStr (exn_str e))]"

text \<open>
  Modelled from the spec: \<open>CachedArtifactError.enhanced_details\<close>, the details of the
  parent's cache entry with one more item, \<open>copied_from_artifact\<close>, that identifies the
  parent artifact (its kind, dataset, config and split), as the comment in \<open>process\<close>
  describes it.
\<close>

definition json_of_optional_str :: "string option \<Rightarrow> json" where
  "json_of_optional_str s = (case s of None \<Rightarrow> JNull | Some x \<Rightarrow> JStr x)"

definition copied_from_artifact :: "artifact_id \<Rightarrow> json" where
  "copied_from_artifact a =
     JDict [(''kind'', JStr (ai_kind a)),
            (''dataset'', JStr (ai_dataset a)),
            (''config'', json_of_optional_str (ai_config a)),
            (''split'', json_of_optional_str (ai_split a))]"

definition enhanced_details :: "artifact_id \<Rightarrow> cache_entry_with_details \<Rightarrow> pydict" where
  "enhanced_details a e = AList.update ''copied_from_artifact'' (copied_from_artifact a) (cd_details e)"

subsection \<open>libcommon.processing\_graph, worker.config, worker.job\_runner\<close>

datatype input_type = DatasetLevel | ConfigLevel | SplitLevel

record processing_step =
  ps_name :: string
  ps_job_type :: string
  ps_cache_kind :: string
  ps_job_runner_version :: int
  ps_input_type :: input_type
  ps_parents :: "string list"

type_synonym processing_graph = "processing_step list"

record worker_config =
  wc_content_max_bytes :: int

record job_result =
  jres_content :: json
  jres_progress :: real

record parallel_job_runner =
  pjr_job_type :: string
  pjr_job_runner_version :: int

text \<open>
  The job runner is the step's computation, an external collaborator. Its hooks and its
  \<open>compute\<close> may read the cache store and may raise; the other methods return constants.
\<close>

record job_runner =
  jr_processing_step :: processing_step
  jr_get_job_type :: string
  jr_get_job_runner_version :: int
  jr_get_parallel_job_runner :: "parallel_job_runner option"
  jr_pre_compute :: "cache_store \<Rightarrow> exn option"
  jr_compute :: "cache_store \<Rightarrow> exn + job_result"
  jr_post_compute :: "cache_store \<Rightarrow> exn option"

text \<open>
  The attributes that \<open>__init__\<close> (lines 58-75) sets. It takes the processing step from the
  job runner and \<open>setup\<close> rejects a job of another type; the properties below do not depend
  on either and are proved for every record.
\<close>

record job_manager =
  jm_job_info :: job_info
  jm_job_type :: string
  jm_job_id :: string
  jm_priority :: priority
  jm_job_params :: job_params
  jm_worker_config :: worker_config
  jm_job_runner :: job_runner
  jm_processing_graph :: processing_graph
  jm_processing_step :: processing_step

subsection \<open>The world: cache store and trace of calls\<close>

record job_request =
  jq_params :: job_params
  jq_step :: string
  jq_priority :: priority

record backfill_args =
  ba_dataset :: string
  ba_revision :: string
  ba_processing_graph :: processing_graph
  ba_error_codes_to_retry :: "string list"
  ba_priority :: priority

datatype event =
    EvPreCompute
  | EvCompute
  | EvPostCompute
  | EvUpsert cache_key cache_entry
  | EvBackfill backfill_args
  | EvEmit "job_request list"

record world =
  cache :: cache_store
  trace :: "event list"

definition record_event :: "event \<Rightarrow> world \<Rightarrow> world" where
  "record_event ev w = w\<lparr>trace := trace w @ [ev]\<rparr>"

text \<open>
  What job\_manager.py takes from libraries that are not part of the sources at hand and
  that the claims leave open: the serializer \<open>orjson_dumps\<close> of libcommon.utils, which gives
  the bytes of a content or raises, and \<open>DatasetState(...).backfill()\<close> of libcommon.state,
  which reads the cache store and emits job requests, or raises.
\<close>

record env =
  orjson_dumps :: "json \<Rightarrow> exn + string"
  dataset_state_backfill :: "backfill_args \<Rightarrow> cache_store \<Rightarrow> exn + job_request list"

text \<open>
  Modelled from the spec: the cache store API of libcommon.simple\_cache. An entry is keyed
  by the artifact kind and the job parameters; \<open>upsert_response_params\<close> replaces the entry
  of the key by the one given (its optional arguments default to \<open>None\<close>), and
  \<open>get_response_without_content_params\<close> reads the entry of a key without its content and
  raises \<open>DoesNotExist\<close> when there is none. The last-updated timestamp is left out, and
  the store itself does not fail: an upsert always succeeds.
\<close>

definition upsert_response_params ::
  "string \<Rightarrow> job_params \<Rightarrow> json \<Rightarrow> int \<Rightarrow> string option \<Rightarrow> pydict option \<Rightarrow>
   int option \<Rightarrow> string option \<Rightarrow> real option \<Rightarrow> world \<Rightarrow> world" where
  "upsert_response_params kind params content http_status error_code' details
     job_runner_version dataset_git_revision progress w =
     (let entry = \<lparr>ce_content = content, ce_http_status = http_status,
                    ce_error_code = error_code', ce_details = details,
                    ce_job_runner_version = job_runner_version,
                    ce_dataset_git_revision = dataset_git_revision,
                    ce_progress = progress\<rparr>
      in w\<lparr>cache := (cache w)((kind, params) \<mapsto> entry),
            trace := trace w @ [EvUpsert (kind, params) entry]\<rparr>)"

definition get_response_without_content_params ::
  "string \<Rightarrow> job_params \<Rightarrow> cache_store \<Rightarrow> exn + cache_entry_without_content" where
  "get_response_without_content_params kind params c =
     (case c (kind, params) of
        None \<Rightarrow> Inl (DoesNotExist ''Cache entry does not exist'')
      | Some e \<Rightarrow> Inr \<lparr>cm_http_status = ce_http_status e,
                        cm_error_code = ce_error_code e,
                        cm_job_runner_version = ce_job_runner_version e,
                        cm_dataset_git_revision = ce_dataset_git_revision e,
                        cm_progress = ce_progress e\<rparr>)"

subsection \<open>JobManager\<close>

definition ERROR_CODES_TO_RETRY :: "string list" where
  "ERROR_CODES_TO_RETRY = [''ClientConnectionError'']"

text \<open>
  \<open>raise_if_parallel_response_exists\<close> (lines 120-138): the exception raised, if any. A
  missing entry (\<open>DoesNotExist\<close>) is logged and swallowed.
\<close>

definition raise_if_parallel_response_exists ::
  "job_manager \<Rightarrow> string \<Rightarrow> int \<Rightarrow> cache_store \<Rightarrow> exn option" where
  "raise_if_parallel_response_exists jm parallel_cache_kind parallel_job_version c =
     (case get_response_without_content_params parallel_cache_kind (jm_job_params jm) c of
        Inl (DoesNotExist m) \<Rightarrow> None
      | Inl e \<Rightarrow> Some e
      | Inr existing_response \<Rightarrow>
          if cm_http_status existing_response = HTTPStatus_OK
             \<and> cm_job_runner_version existing_response = Some parallel_job_version
             \<and> cm_progress existing_response = Some 1
             \<and> cm_dataset_git_revision existing_response = Some (jp_revision (jm_job_params jm))
          then Some (CustomError ResponseAlreadyComputedError
                 (''Response has already been computed and stored in cache kind: ''
                    @ parallel_cache_kind @ ''. Compute will be skipped.'') None)
          else None)"

text \<open>Lines 146-151 of \<open>process\<close>: the check runs only when there is a parallel job runner.\<close>

definition parallel_check :: "job_manager \<Rightarrow> cache_store \<Rightarrow> exn option" where
  "parallel_check jm c =
     (case jr_get_parallel_job_runner (jm_job_runner jm) of
        None \<Rightarrow> None
      | Some p \<Rightarrow> raise_if_parallel_response_exists jm (pjr_job_type p) (pjr_job_runner_version p) c)"

definition too_big_message :: "int \<Rightarrow> string" where
  "too_big_message limit =
     ''The computed response content exceeds the supported size in bytes''
       @ '' ('' @ str_int limit @ '').''"

text \<open>
  The body of the inner \<open>try\<close> of \<open>process\<close> (lines 145-161): \<open>pre_compute\<close>, the parallel
  check, \<open>compute\<close> and the validation of the content's size. It gives the job result, or
  the exception that leaves the body.
\<close>

definition process_try_body :: "env \<Rightarrow> job_manager \<Rightarrow> world \<Rightarrow> (exn + job_result) \<times> world" where
  "process_try_body ev jm w =
     (let w1 = record_event EvPreCompute w in
      case jr_pre_compute (jm_job_runner jm) (cache w1) of
        Some e \<Rightarrow> (Inl e, w1)
      | None \<Rightarrow>
         (case parallel_check jm (cache w1) of
            Some e \<Rightarrow> (Inl e, w1)
          | None \<Rightarrow>
             (let w2 = record_event EvCompute w1 in
              case jr_compute (jm_job_runner jm) (cache w2) of
                Inl e \<Rightarrow> (Inl e, w2)
              | Inr job_result \<Rightarrow>
                 (case orjson_dumps ev (jres_content job_result) of
                    Inl e \<Rightarrow> (Inl e, w2)
                  | Inr bytes \<Rightarrow>
                     if int (length bytes) > wc_content_max_bytes (jm_worker_config jm)
                     then (Inl (CustomError TooBigContentError
                                  (too_big_message (wc_content_max_bytes (jm_worker_config jm))) None), w2)
                     else (Inr job_result, w2)))))"

text \<open>
  The inner \<open>try ... finally\<close> (lines 144-164): \<open>post_compute\<close> is called however the body
  ends; an exception it raises replaces the outcome of the body.
\<close>

definition process_try_finally :: "env \<Rightarrow> job_manager \<Rightarrow> world \<Rightarrow> (exn + job_result) \<times> world" where
  "process_try_finally ev jm w =
     (case process_try_body ev jm w of
        (r, w1) \<Rightarrow>
          (let w2 = record_event EvPostCompute w1 in
           case jr_post_compute (jm_job_runner jm) (cache w2) of
             Some e \<Rightarrow> (Inl e, w2)
           | None \<Rightarrow> (r, w2)))"

text \<open>
  The \<open>except\<close> clauses of \<open>process\<close> (lines 179-215), in the order of the source:
  \<open>DatasetNotFoundError\<close>, \<open>CachedArtifactError\<close>, \<open>Exception\<close>.
\<close>

fun process_except :: "job_manager \<Rightarrow> exn \<Rightarrow> world \<Rightarrow> (exn + bool) \<times> world" where
  "process_except jm (CustomError DatasetNotFoundError m cause) w = (Inr False, w)"
| "process_except jm (CachedArtifactError m a entry) w =
     (Inr False,
      upsert_response_params (ps_cache_kind (jm_processing_step jm)) (jm_job_params jm)
        (cd_content entry) (cd_http_status entry) (cd_error_code entry)
        (Some (enhanced_details a entry))
        (Some (jr_get_job_runner_version (jm_job_runner jm)))
        (Some (jp_revision (jm_job_params jm))) None w)"
| "process_except jm err w =
     (let e = (if isinstance_CustomError err then err
               else CustomError UnexpectedError (exn_str err) (Some err))
      in (Inr False,
          upsert_response_params (ps_cache_kind (jm_processing_step jm)) (jm_job_params jm)
            (JDict (as_response e)) (status_code e) (Some (code e))
            (Some (as_response_with_cause e))
            (Some (jr_get_job_runner_version (jm_job_runner jm)))
            (Some (jp_revision (jm_job_params jm))) None w))"

definition process :: "env \<Rightarrow> job_manager \<Rightarrow> world \<Rightarrow> (exn + bool) \<times> world" where
  "process ev jm w =
     (case process_try_finally ev jm w of
        (Inr job_result, w1) \<Rightarrow>
          (Inr True,
           upsert_response_params (ps_cache_kind (jm_processing_step jm)) (jm_job_params jm)
             (jres_content job_result) HTTPStatus_OK None None
             (Some (jr_get_job_runner_version (jm_job_runner jm)))
             (Some (jp_revision (jm_job_params jm)))
             (Some (jres_progress job_result)) w1)
      | (Inl err, w1) \<Rightarrow> process_except jm err w1)"

definition the_backfill_args :: "job_manager \<Rightarrow> backfill_args" where
  "the_backfill_args jm =
     \<lparr>ba_dataset = jp_dataset (jm_job_params jm),
      ba_revision = jp_revision (jm_job_params jm),
      ba_processing_graph = jm_processing_graph jm,
      ba_error_codes_to_retry = ERROR_CODES_TO_RETRY,
      ba_priority = jm_priority jm\<rparr>"

text \<open>\<open>backfill\<close> (lines 217-225): the exception raised by the dataset state, if any.\<close>

definition backfill :: "env \<Rightarrow> job_manager \<Rightarrow> world \<Rightarrow> exn option \<times> world" where
  "backfill ev jm w =
     (let w1 = record_event (EvBackfill (the_backfill_args jm)) w in
      case dataset_state_backfill ev (the_backfill_args jm) (cache w1) of
        Inl e \<Rightarrow> (Some e, w1)
      | Inr jobs \<Rightarrow> (None, record_event (EvEmit jobs) w1))"

text \<open>
  \<open>run\<close> (lines 110-118): an exception of \<open>process\<close> gives the result \<open>False\<close>; the call of
  \<open>backfill\<close> is outside the \<open>try\<close>, so what it raises leaves \<open>run\<close>.
\<close>

definition run :: "env \<Rightarrow> job_manager \<Rightarrow> world \<Rightarrow> (exn + bool) \<times> world" where
  "run ev jm w =
     (case (case process ev jm w of
              (Inr b, w1) \<Rightarrow> (b, w1)
            | (Inl e, w1) \<Rightarrow> (False, w1)) of
        (result, w1) \<Rightarrow>
          (case backfill ev jm w1 of
             (Some e, w2) \<Rightarrow> (Inl e, w2)
           | (None, w2) \<Rightarrow> (Inr result, w2)))"

text \<open>
  Lines 114-118 of \<open>run\<close>, from what the call of \<open>process\<close> at line 113 did: it returned a
  boolean, or it raised, which \<open>except Exception\<close> turns into \<open>False\<close>.
\<close>

definition run_from :: "env \<Rightarrow> job_manager \<Rightarrow> (exn + bool) \<times> world \<Rightarrow> (exn + bool) \<times> world" where
  "run_from ev jm outcome =
     (case (case outcome of
              (Inr b, w1) \<Rightarrow> (b, w1)
            | (Inl e, w1) \<Rightarrow> (False, w1)) of
        (result, w1) \<Rightarrow>
          (case backfill ev jm w1 of
             (Some e, w2) \<Rightarrow> (Inl e, w2)
           | (None, w2) \<Rightarrow> (Inr result, w2)))"

definition set_crashed :: "job_manager \<Rightarrow> string \<Rightarrow> exn option \<Rightarrow> world \<Rightarrow> world" where
  "set_crashed jm message cause w =
     (let error = CustomError JobManagerCrashedError message cause in
      upsert_response_params (ps_cache_kind (jm_processing_step jm)) (jm_job_params jm)
        (JDict (as_response error)) (status_code error) (Some (code error))
        (Some (as_response_with_cause error))
        (Some (jr_get_job_runner_version (jm_job_runner jm)))
        (Some (jp_revision (jm_job_params jm))) None w)"

definition set_exceeded_maximum_duration ::
  "job_manager \<Rightarrow> string \<Rightarrow> exn option \<Rightarrow> world \<Rightarrow> world" where
  "set_exceeded_maximum_duration jm message cause w =
     (let error = CustomError JobManagerExceededMaximumDurationError message cause in
      upsert_response_params (ps_cache_kind (jm_processing_step jm)) (jm_job_params jm)
        (JDict (as_response error)) (status_code error) (Some (code error))
        (Some (as_response_with_cause error))
        (Some (jr_get_job_runner_version (jm_job_runner jm)))
        (Some (jp_revision (jm_job_params jm))) None w)"

subsection \<open>Reading the trace\<close>

fun upserts :: "event list \<Rightarrow> (cache_key \<times> cache_entry) list" where
  "upserts [] = []"
| "upserts (EvUpsert k e # evs) = (k, e) # upserts evs"
| "upserts (ev # evs) = upserts evs"

fun backfill_calls :: "event list \<Rightarrow> backfill_args list" where
  "backfill_calls [] = []"
| "backfill_calls (EvBackfill a # evs) = a # backfill_calls evs"
| "backfill_calls (ev # evs) = backfill_calls evs"

definition the_cache_key :: "job_manager \<Rightarrow> cache_key" where
  "the_cache_key jm = (ps_cache_kind (jm_processing_step jm), jm_job_params jm)"

subsection \<open>libcommon.state: the backfill planner\<close>

text \<open>
  Modelled from the spec: \<open>DatasetState(...).backfill()\<close> of libcommon.state, which is not
  part of the sources at hand. For the dataset and revision given, the planner goes through
  every step of the processing graph and every target of the step's level (the dataset, each
  config, each split), and emits a job request for each artifact that is missing, stale by
  revision, stale by version, a retryable error, or partially computed. The configs and
  splits of the dataset are read from the cache store by \<open>configs_of\<close>, which the spec
  leaves open. The planner writes nothing to the cache store.
\<close>

definition artifact_targets ::
  "(string \<times> string list) list \<Rightarrow> input_type \<Rightarrow> (string option \<times> string option) list" where
  "artifact_targets configs level =
     (case level of
        DatasetLevel \<Rightarrow> [(None, None)]
      | ConfigLevel \<Rightarrow> map (\<lambda>(c, splits). (Some c, None)) configs
      | SplitLevel \<Rightarrow> concat (map (\<lambda>(c, splits). map (\<lambda>s. (Some c, Some s)) splits) configs))"

definition is_required :: "string list \<Rightarrow> string \<Rightarrow> processing_step \<Rightarrow> cache_entry option \<Rightarrow> bool" where
  "is_required retry revision step entry =
     (case entry of
        None \<Rightarrow> True
      | Some e \<Rightarrow>
          if ce_dataset_git_revision e = Some revision then
            (case ce_job_runner_version e of
               None \<Rightarrow> True
             | Some v \<Rightarrow>
                 if v < ps_job_runner_version step then True
                 else if ce_http_status e = HTTPStatus_OK then
                   (case ce_progress e of None \<Rightarrow> True | Some p \<Rightarrow> p < 1)
                 else
                   (case ce_error_code e of None \<Rightarrow> False | Some c \<Rightarrow> List.member retry c))
          else True)"

definition planned_jobs ::
  "(string \<times> string list) list \<Rightarrow> backfill_args \<Rightarrow> cache_store \<Rightarrow> job_request list" where
  "planned_jobs configs args c =
     concat (map (\<lambda>step.
       map (\<lambda>(config, split).
              \<lparr>jq_params = \<lparr>jp_dataset = ba_dataset args, jp_revision = ba_revision args,
                             jp_config = config, jp_split = split\<rparr>,
               jq_step = ps_name step, jq_priority = ba_priority args\<rparr>)
         (filter (\<lambda>(config, split).
              is_required (ba_error_codes_to_retry args) (ba_revision args) step
                (c (ps_cache_kind step,
                    \<lparr>jp_dataset = ba_dataset args, jp_revision = ba_revision args,
                     jp_config = config, jp_split = split\<rparr>)))
            (artifact_targets configs (ps_input_type step))))
       (ba_processing_graph args))"

definition DatasetState_backfill ::
  "(cache_store \<Rightarrow> string \<Rightarrow> string \<Rightarrow> (string \<times> string list) list) \<Rightarrow>
   backfill_args \<Rightarrow> cache_store \<Rightarrow> exn + job_request list" where
  "DatasetState_backfill configs_of args c =
     Inr (planned_jobs (configs_of c (ba_dataset args) (ba_revision args)) args c)"

subsection \<open>Concrete jobs\<close>

definition ex_params :: job_params where
  "ex_params = \<lparr>jp_dataset = ''user/data'', jp_revision = ''rev1'',
                 jp_config = None, jp_split = None\<rparr>"

definition ex_step :: processing_step where
  "ex_step = \<lparr>ps_name = ''dataset-info'', ps_job_type = ''dataset-info'',
               ps_cache_kind = ''dataset-info'', ps_job_runner_version = 2,
               ps_input_type = DatasetLevel, ps_parents = []\<rparr>"

definition ex_result :: job_result where
  "ex_result = \<lparr>jres_content = JDict [(''rows'', JInt 3)], jres_progress = 1\<rparr>"

definition ex_runner :: job_runner where
  "ex_runner = \<lparr>jr_processing_step = ex_step, jr_get_job_type = ''dataset-info'',
                 jr_get_job_runner_version = 2, jr_get_parallel_job_runner = None,
                 jr_pre_compute = (\<lambda>c. None), jr_compute = (\<lambda>c. Inr ex_result),
                 jr_post_compute = (\<lambda>c. None)\<rparr>"

definition ex_job_manager :: "job_runner \<Rightarrow> int \<Rightarrow> job_manager" where
  "ex_job_manager runner limit =
     \<lparr>jm_job_info = \<lparr>ji_type = ''dataset-info'', ji_job_id = ''job1'',
                      ji_params = ex_params, ji_priority = Normal\<rparr>,
      jm_job_type = ''dataset-info'', jm_job_id = ''job1'', jm_priority = Normal,
      jm_job_params = ex_params, jm_worker_config = \<lparr>wc_content_max_bytes = limit\<rparr>,
      jm_job_runner = runner, jm_processing_graph = [ex_step],
      jm_processing_step = ex_step\<rparr>"

text \<open>
  A serializer that gives ten bytes, and a dataset state that plans as the spec says, for a
  dataset without configs.
\<close>

definition ex_configs_of :: "cache_store \<Rightarrow> string \<Rightarrow> string \<Rightarrow> (string \<times> string list) list" where
  "ex_configs_of c dataset revision = []"

definition ex_env :: env where
  "ex_env = \<lparr>orjson_dumps = (\<lambda>c. Inr ''[10,20,30]''),
              dataset_state_backfill = DatasetState_backfill ex_configs_of\<rparr>"

text \<open>A dataset state whose \<open>backfill\<close> raises.\<close>

definition ex_env_backfill_raises :: env where
  "ex_env_backfill_raises =
     \<lparr>orjson_dumps = (\<lambda>c. Inr ''[10,20,30]''),
      dataset_state_backfill = (\<lambda>a c. Inl (OtherException ''ConnectionError'' ''no server''))\<rparr>"

definition ex_world :: world where
  "ex_world = \<lparr>cache = Map.empty, trace = []\<rparr>"

text \<open>A job runner whose parallel step is \<open>dataset-info-from-parquet\<close> at version 3.\<close>

definition ex_runner_parallel :: job_runner where
  "ex_runner_parallel =
     ex_runner\<lparr>jr_get_parallel_job_runner :=
       Some \<lparr>pjr_job_type = ''dataset-info-from-parquet'', pjr_job_runner_version = 3\<rparr>\<rparr>"

definition ex_parallel_entry :: cache_entry where
  "ex_parallel_entry =
     \<lparr>ce_content = JDict [(''rows'', JInt 3)], ce_http_status = 200, ce_error_code = None,
      ce_details = None, ce_job_runner_version = Some 3,
      ce_dataset_git_revision = Some ''rev1'', ce_progress = Some 1\<rparr>"

definition ex_world_parallel :: world where
  "ex_world_parallel =
     \<lparr>cache = [(''dataset-info-from-parquet'', ex_params) \<mapsto> ex_parallel_entry], trace = []\<rparr>"

definition ex_runner_not_found :: job_runner where
  "ex_runner_not_found =
     ex_runner\<lparr>jr_compute :=
       (\<lambda>c. Inl (CustomError DatasetNotFoundError ''The dataset does not exist.'' None))\<rparr>"

definition ex_parent :: artifact_id where
  "ex_parent = \<lparr>ai_kind = ''config-names'', ai_dataset = ''user/data'',
                 ai_config = None, ai_split = None\<rparr>"

definition ex_parent_entry :: cache_entry_with_details where
  "ex_parent_entry =
     \<lparr>cd_content = JDict [(''error'', JStr ''Cannot get the config names.'')],
      cd_http_status = 500, cd_error_code = Some ''ConfigNamesError'',
      cd_details = [(''error'', JStr ''Cannot get the config names.'')]\<rparr>"

definition ex_runner_parent_error :: job_runner where
  "ex_runner_parent_error =
     ex_runner\<lparr>jr_compute :=
       (\<lambda>c. Inl (CachedArtifactError ''The previous step failed.'' ex_parent ex_parent_entry))\<rparr>"

text \<open>The same job runner with a \<open>post_compute\<close> hook that raises.\<close>

definition ex_post_compute_raises :: "job_runner \<Rightarrow> job_runner" where
  "ex_post_compute_raises runner =
     runner\<lparr>jr_post_compute :=
       (\<lambda>c. Some (OtherException ''OSError'' ''cannot remove the working directory''))\<rparr>"

text \<open>The entry that the generic \<open>except\<close> clause writes for that exception.\<close>

definition ex_post_compute_entry :: cache_entry where
  "ex_post_compute_entry =
     \<lparr>ce_content = JDict [(''error'', JStr ''cannot remove the working directory'')],
      ce_http_status = 500, ce_error_code = Some ''UnexpectedError'',
      ce_details = Some [(''error'', JStr ''cannot remove the working directory''),
                         (''cause_exception'', JStr ''OSError''),
                         (''cause_message'', JStr ''cannot remove the working directory'')],
      ce_job_runner_version = Some 2, ce_dataset_git_revision = Some ''rev1'',
      ce_progress = None\<rparr>"

section \<open>Properties\<close>

subsection \<open>Worlds and traces\<close>

lemma cache_record_event: "cache (record_event x w) = cache w"
  by (simp add: record_event_def)

lemma trace_record_event: "trace (record_event x w) = trace w @ [x]"
  by (simp add: record_event_def)

lemma cache_upsert:
  "cache (upsert_response_params k p c h ec d v r pr w) =
     (cache w)((k, p) \<mapsto> \<lparr>ce_content = c, ce_http_status = h, ce_error_code = ec,
        ce_details = d, ce_job_runner_version = v, ce_dataset_git_revision = r,
        ce_progress = pr\<rparr>)"
  by (simp add: upsert_response_params_def Let_def)

lemma trace_upsert:
  "trace (upsert_response_params k p c h ec d v r pr w) =
     trace w @ [EvUpsert (k, p) \<lparr>ce_content = c, ce_http_status = h, ce_error_code = ec,
        ce_details = d, ce_job_runner_version = v, ce_dataset_git_revision = r,
        ce_progress = pr\<rparr>]"
  by (simp add: upsert_response_params_def Let_def)

lemma process_try_body_shape:
  "cache (snd (process_try_body ev jm w)) = cache w \<and>
   (trace (snd (process_try_body ev jm w)) = trace w @ [EvPreCompute] \<or>
    trace (snd (process_try_body ev jm w)) = trace w @ [EvPreCompute, EvCompute])"
  by (simp add: process_try_body_def Let_def cache_record_event trace_record_event
       split: option.split sum.split)



lemma process_try_finally_shape:
  "cache (snd (process_try_finally ev jm w)) = cache w \<and>
   (trace (snd (process_try_finally ev jm w)) = trace w @ [EvPreCompute, EvPostCompute] \<or>
    trace (snd (process_try_finally ev jm w)) = trace w @ [EvPreCompute, EvCompute, EvPostCompute])"
proof (cases "process_try_body ev jm w")
  case (Pair r w1)
  with process_try_body_shape [of ev jm w]
  have c: "cache w1 = cache w"
    and t: "trace w1 = trace w @ [EvPreCompute] \<or> trace w1 = trace w @ [EvPreCompute, EvCompute]"
    by simp_all
  have s: "snd (process_try_finally ev jm w) = record_event EvPostCompute w1"
    using Pair by (simp add: process_try_finally_def Let_def split: option.split)
  show ?thesis
    using c t by (auto simp add: s cache_record_event trace_record_event)
qed

lemma process_except_shape:
  "fst (process_except jm err w) = Inr False \<and>
     (trace (snd (process_except jm err w)) = trace w \<or>
      (\<exists>e. trace (snd (process_except jm err w)) = trace w @ [EvUpsert (the_cache_key jm) e]))"
  by (cases "(jm, err, w)" rule: process_except.cases)
     (simp_all add: trace_upsert the_cache_key_def Let_def)


lemma process_unfold:
  "process ev jm w =
     (case fst (process_try_finally ev jm w) of
        Inr job_result \<Rightarrow>
          (Inr True,
           upsert_response_params (ps_cache_kind (jm_processing_step jm)) (jm_job_params jm)
             (jres_content job_result) HTTPStatus_OK None None
             (Some (jr_get_job_runner_version (jm_job_runner jm)))
             (Some (jp_revision (jm_job_params jm)))
             (Some (jres_progress job_result)) (snd (process_try_finally ev jm w)))
      | Inl err \<Rightarrow> process_except jm err (snd (process_try_finally ev jm w)))"
  by (cases "process_try_finally ev jm w") (simp add: process_def split: sum.split)

lemma process_returns:
  "fst (process ev jm w) = Inr True \<or> fst (process ev jm w) = Inr False"
proof (cases "fst (process_try_finally ev jm w)")
  case (Inl err)
  then show ?thesis
    using process_except_shape [of jm err "snd (process_try_finally ev jm w)"]
    by (simp add: process_unfold)
next
  case (Inr res)
  then show ?thesis by (simp add: process_unfold)
qed

lemma process_after_finally:
  "trace (snd (process ev jm w)) = trace (snd (process_try_finally ev jm w)) \<or>
   (\<exists>e. trace (snd (process ev jm w)) =
          trace (snd (process_try_finally ev jm w)) @ [EvUpsert (the_cache_key jm) e])"
proof (cases "fst (process_try_finally ev jm w)")
  case (Inl err)
  then show ?thesis
    using process_except_shape [of jm err "snd (process_try_finally ev jm w)"]
    by (simp add: process_unfold)
next
  case (Inr res)
  then show ?thesis by (simp add: process_unfold trace_upsert the_cache_key_def)
qed

lemma process_trace:
  "\<exists>xs ys. trace (snd (process ev jm w)) = trace w @ [EvPreCompute] @ xs @ [EvPostCompute] @ ys
     \<and> (xs = [] \<or> xs = [EvCompute])
     \<and> (ys = [] \<or> (\<exists>e. ys = [EvUpsert (the_cache_key jm) e]))"
proof -
  obtain xs where xs: "trace (snd (process_try_finally ev jm w)) = trace w @ [EvPreCompute] @ xs @ [EvPostCompute]"
    and xs': "xs = [] \<or> xs = [EvCompute]"
    using process_try_finally_shape [of ev jm w] by (metis append_Cons append_Nil)
  obtain ys where ys: "trace (snd (process ev jm w)) = trace (snd (process_try_finally ev jm w)) @ ys"
    and ys': "ys = [] \<or> (\<exists>e. ys = [EvUpsert (the_cache_key jm) e])"
    using process_after_finally [of ev jm w] by (metis append_Nil2)
  have "trace (snd (process ev jm w)) = trace w @ [EvPreCompute] @ xs @ [EvPostCompute] @ ys"
    using xs ys by simp
  with xs' ys' show ?thesis by blast
qed


lemma backfill_result:
  "fst (backfill ev jm w) =
     (case dataset_state_backfill ev (the_backfill_args jm) (cache w) of
        Inl e \<Rightarrow> Some e | Inr js \<Rightarrow> None)"
  by (simp add: backfill_def Let_def cache_record_event split: sum.split)

lemma backfill_trace:
  "trace (snd (backfill ev jm w)) =
     trace w @ [EvBackfill (the_backfill_args jm)] @
       (case dataset_state_backfill ev (the_backfill_args jm) (cache w) of
          Inl e \<Rightarrow> [] | Inr js \<Rightarrow> [EvEmit js])"
  by (simp add: backfill_def Let_def cache_record_event trace_record_event split: sum.split)

lemma backfill_cache: "cache (snd (backfill ev jm w)) = cache w"
  by (simp add: backfill_def Let_def cache_record_event split: sum.split)

lemma run_unfold:
  "fst (process ev jm w) = Inr b \<Longrightarrow>
   run ev jm w =
     (case fst (backfill ev jm (snd (process ev jm w))) of
        Some e \<Rightarrow> (Inl e, snd (backfill ev jm (snd (process ev jm w))))
      | None \<Rightarrow> (Inr b, snd (backfill ev jm (snd (process ev jm w)))))"
  by (cases "process ev jm w"; cases "backfill ev jm (snd (process ev jm w))")
     (simp add: run_def split: option.split)

lemma run_world:
  "snd (run ev jm w) = snd (backfill ev jm (snd (process ev jm w)))"
proof -
  obtain b where "fst (process ev jm w) = Inr b"
    using process_returns [of ev jm w] by blast
  then show ?thesis by (simp add: run_unfold split: option.split)
qed

lemma run_result:
  "fst (process ev jm w) = Inr b \<Longrightarrow>
   fst (run ev jm w) =
     (case dataset_state_backfill ev (the_backfill_args jm) (cache (snd (process ev jm w))) of
        Inl e \<Rightarrow> Inl e | Inr js \<Rightarrow> Inr b)"
  by (simp add: run_unfold backfill_result split: sum.split)

lemma backfill_calls_append:
  "backfill_calls (xs @ ys) = backfill_calls xs @ backfill_calls ys"
  by (induction xs rule: backfill_calls.induct) simp_all

lemma upserts_append: "upserts (xs @ ys) = upserts xs @ upserts ys"
  by (induction xs rule: upserts.induct) simp_all

text \<open>
  Claim C7. In every execution of \<open>process\<close> the calls recorded are \<open>pre_compute\<close>, at most
  one \<open>compute\<close>, then \<open>post_compute\<close>, and only after it at most one upsert for the job's
  key: \<open>post_compute\<close> is called exactly once on every path (success, short-circuit, size
  failure, an exception of \<open>pre_compute\<close>, of the parallel check, of \<open>compute\<close> or of the
  serializer), and before the outcome is written.
\<close>

theorem process_post_compute_on_every_path:
  "\<exists>xs ys. trace (snd (process ev jm w)) =
            trace w @ [EvPreCompute] @ xs @ [EvPostCompute] @ ys
     \<and> (xs = [] \<or> xs = [EvCompute])
     \<and> (ys = [] \<or> (\<exists>e. ys = [EvUpsert (the_cache_key jm) e]))"
proof -
  let ?w1 = "snd (process_try_finally ev jm w)"
  have hooks: "trace ?w1 = trace w @ [EvPreCompute] @ [] @ [EvPostCompute] \<or>
               trace ?w1 = trace w @ [EvPreCompute] @ [EvCompute] @ [EvPostCompute]"
    using process_try_finally_shape [of ev jm w] by simp
  have outcome: "trace (snd (process ev jm w)) = trace ?w1 @ [] \<or>
                 (\<exists>e. trace (snd (process ev jm w)) = trace ?w1 @ [EvUpsert (the_cache_key jm) e])"
    using process_after_finally [of ev jm w] by simp
  from hooks show ?thesis
  proof
    assume h: "trace ?w1 = trace w @ [EvPreCompute] @ [] @ [EvPostCompute]"
    from outcome show ?thesis
    proof
      assume "trace (snd (process ev jm w)) = trace ?w1 @ []"
      with h have "trace (snd (process ev jm w)) =
          trace w @ [EvPreCompute] @ [] @ [EvPostCompute] @ []" by simp
      then show ?thesis by blast
    next
      assume "\<exists>e. trace (snd (process ev jm w)) = trace ?w1 @ [EvUpsert (the_cache_key jm) e]"
      then obtain e where "trace (snd (process ev jm w)) =
          trace ?w1 @ [EvUpsert (the_cache_key jm) e]" ..
      with h have "trace (snd (process ev jm w)) =
          trace w @ [EvPreCompute] @ [] @ [EvPostCompute] @ [EvUpsert (the_cache_key jm) e]"
        by simp
      then show ?thesis by blast
    qed
  next
    assume h: "trace ?w1 = trace w @ [EvPreCompute] @ [EvCompute] @ [EvPostCompute]"
    from outcome show ?thesis
    proof
      assume "trace (snd (process ev jm w)) = trace ?w1 @ []"
      with h have "trace (snd (process ev jm w)) =
          trace w @ [EvPreCompute] @ [EvCompute] @ [EvPostCompute] @ []" by simp
      then show ?thesis by blast
    next
      assume "\<exists>e. trace (snd (process ev jm w)) = trace ?w1 @ [EvUpsert (the_cache_key jm) e]"
      then obtain e where "trace (snd (process ev jm w)) =
          trace ?w1 @ [EvUpsert (the_cache_key jm) e]" ..
      with h have "trace (snd (process ev jm w)) =
          trace w @ [EvPreCompute] @ [EvCompute] @ [EvPostCompute]
            @ [EvUpsert (the_cache_key jm) e]"
        by simp
      then show ?thesis by blast
    qed
  qed
qed

lemma run_run_from: "run ev jm w = run_from ev jm (process ev jm w)"
  by (simp add: run_def run_from_def)

lemma run_from_result:
  "fst (run_from ev jm (r, w1)) =
     (case dataset_state_backfill ev (the_backfill_args jm) (cache w1) of
        Inl e \<Rightarrow> Inl e
      | Inr js \<Rightarrow> Inr (case r of Inr b \<Rightarrow> b | Inl e \<Rightarrow> False))"
proof -
  have "fst (run_from ev jm (r, w1)) =
      (case fst (backfill ev jm w1) of
         Some e \<Rightarrow> Inl e
       | None \<Rightarrow> Inr (case r of Inr b \<Rightarrow> b | Inl e \<Rightarrow> False))"
    by (cases r; cases "backfill ev jm w1")
       (auto simp add: run_from_def split: option.split)
  then show ?thesis
    by (simp add: backfill_result split: sum.split)
qed

lemma run_from_trace:
  "trace (snd (run_from ev jm (r, w1))) =
     trace w1 @ [EvBackfill (the_backfill_args jm)] @
       (case dataset_state_backfill ev (the_backfill_args jm) (cache w1) of
          Inl e \<Rightarrow> [] | Inr js \<Rightarrow> [EvEmit js])"
proof -
  have "snd (run_from ev jm (r, w1)) = snd (backfill ev jm w1)"
    by (cases r; cases "backfill ev jm w1")
       (auto simp add: run_from_def split: option.split)
  then show ?thesis by (simp add: backfill_trace)
qed

text \<open>
  Claim C1, as amended. Whatever the call of \<open>process\<close> did (it returned a boolean or it
  raised), the rest of \<open>run\<close> calls \<open>backfill\<close> exactly once, after it; \<open>run\<close> returns the
  boolean (\<open>False\<close> for an exception of \<open>process\<close>) when the dataset state's backfill
  returns, and when that raises, its exception leaves \<open>run\<close>. For the whole of \<open>run\<close>: the
  calls are \<open>pre_compute\<close>, at most one \<open>compute\<close>, \<open>post_compute\<close>, at most one upsert, and
  then the one call of backfill; an exception of the hooks, of the parallel check, of
  \<open>compute\<close> or of the serializer never leaves \<open>run\<close>.
\<close>

theorem run_backfill_once:
  "run ev jm w = run_from ev jm (process ev jm w)
   \<and> fst (run_from ev jm (r, w1)) =
       (case dataset_state_backfill ev (the_backfill_args jm) (cache w1) of
          Inl e \<Rightarrow> Inl e
        | Inr js \<Rightarrow> Inr (case r of Inr b \<Rightarrow> b | Inl e \<Rightarrow> False))
   \<and> trace (snd (run_from ev jm (r, w1))) =
       trace w1 @ [EvBackfill (the_backfill_args jm)] @
         (case dataset_state_backfill ev (the_backfill_args jm) (cache w1) of
            Inl e \<Rightarrow> [] | Inr js \<Rightarrow> [EvEmit js])
   \<and> (\<exists>xs ys post.
         trace (snd (run ev jm w)) =
           trace w @ [EvPreCompute] @ xs @ [EvPostCompute] @ ys
             @ [EvBackfill (the_backfill_args jm)] @ post
       \<and> (xs = [] \<or> xs = [EvCompute])
       \<and> (ys = [] \<or> (\<exists>e. ys = [EvUpsert (the_cache_key jm) e]))
       \<and> (post = [] \<or> (\<exists>js. post = [EvEmit js])))
   \<and> fst (run ev jm w) =
       (case dataset_state_backfill ev (the_backfill_args jm) (cache (snd (process ev jm w))) of
          Inl e \<Rightarrow> Inl e
        | Inr js \<Rightarrow> Inr (case fst (process ev jm w) of Inr b \<Rightarrow> b | Inl e \<Rightarrow> False))"
proof -
  obtain xs ys where t: "trace (snd (process ev jm w)) =
        trace w @ [EvPreCompute] @ xs @ [EvPostCompute] @ ys"
    and xs: "xs = [] \<or> xs = [EvCompute]"
    and ys: "ys = [] \<or> (\<exists>e. ys = [EvUpsert (the_cache_key jm) e])"
    using process_trace [of ev jm w] by blast
  define post where "post =
    (case dataset_state_backfill ev (the_backfill_args jm) (cache (snd (process ev jm w))) of
       Inl e \<Rightarrow> [] | Inr js \<Rightarrow> [EvEmit js])"
  have post: "post = [] \<or> (\<exists>js. post = [EvEmit js])"
    by (simp add: post_def split: sum.split)
  have "trace (snd (run ev jm w)) =
        trace w @ [EvPreCompute] @ xs @ [EvPostCompute] @ ys
          @ [EvBackfill (the_backfill_args jm)] @ post"
    by (simp add: run_world backfill_trace t post_def)
  with xs ys post have shape: "\<exists>xs ys post.
         trace (snd (run ev jm w)) =
           trace w @ [EvPreCompute] @ xs @ [EvPostCompute] @ ys
             @ [EvBackfill (the_backfill_args jm)] @ post
       \<and> (xs = [] \<or> xs = [EvCompute])
       \<and> (ys = [] \<or> (\<exists>e. ys = [EvUpsert (the_cache_key jm) e]))
       \<and> (post = [] \<or> (\<exists>js. post = [EvEmit js]))"
    by blast
  have whole: "fst (run ev jm w) =
       (case dataset_state_backfill ev (the_backfill_args jm) (cache (snd (process ev jm w))) of
          Inl e \<Rightarrow> Inl e
        | Inr js \<Rightarrow> Inr (case fst (process ev jm w) of Inr b \<Rightarrow> b | Inl e \<Rightarrow> False))"
    using run_from_result [of ev jm "fst (process ev jm w)" "snd (process ev jm w)"]
    by (simp add: run_run_from)
  show ?thesis
    using run_run_from [of ev jm w] run_from_result [of ev jm r w1]
      run_from_trace [of ev jm r w1] shape whole
    by simp
qed

text \<open>
  Claim C1 as stated fails where the dataset state's backfill raises: the job has
  succeeded, and \<open>run\<close> raises instead of returning \<open>True\<close>.
\<close>

theorem run_backfill_raises_counterexample:
  "fst (process ex_env_backfill_raises (ex_job_manager ex_runner 100) ex_world) = Inr True
   \<and> fst (backfill ex_env_backfill_raises (ex_job_manager ex_runner 100)
            (snd (process ex_env_backfill_raises (ex_job_manager ex_runner 100) ex_world)))
       = Some (OtherException ''ConnectionError'' ''no server'')
   \<and> fst (run ex_env_backfill_raises (ex_job_manager ex_runner 100) ex_world)
       = Inl (OtherException ''ConnectionError'' ''no server'')"
  by (simp add: run_def backfill_def process_def process_try_finally_def process_try_body_def
        parallel_check_def ex_env_backfill_raises_def ex_job_manager_def ex_runner_def
        ex_world_def ex_result_def record_event_def upsert_response_params_def Let_def)

text \<open>
  Claim C10. The retry allowlist is the constant \<open>ERROR_CODES_TO_RETRY\<close>, the single code
  \<open>ClientConnectionError\<close>; every call of the dataset state's backfill made by \<open>backfill\<close>
  or by \<open>run\<close> passes it, for every job manager, environment and world.
\<close>

theorem backfill_allowlist_fixed:
  "ERROR_CODES_TO_RETRY = [''ClientConnectionError'']
   \<and> map ba_error_codes_to_retry (backfill_calls (trace (snd (backfill ev jm w)))) =
       map ba_error_codes_to_retry (backfill_calls (trace w)) @ [[''ClientConnectionError'']]
   \<and> map ba_error_codes_to_retry (backfill_calls (trace (snd (run ev jm w)))) =
       map ba_error_codes_to_retry (backfill_calls (trace w)) @ [[''ClientConnectionError'']]"
proof -
  have a: "ba_error_codes_to_retry (the_backfill_args jm) = [''ClientConnectionError'']"
    by (simp add: the_backfill_args_def ERROR_CODES_TO_RETRY_def)
  have b: "\<And>w'. backfill_calls (trace (snd (backfill ev jm w'))) =
             backfill_calls (trace w') @ [the_backfill_args jm]"
    by (simp add: backfill_trace backfill_calls_append split: sum.split)
  obtain xs ys where t: "trace (snd (process ev jm w)) =
        trace w @ [EvPreCompute] @ xs @ [EvPostCompute] @ ys"
    and xs: "xs = [] \<or> xs = [EvCompute]"
    and ys: "ys = [] \<or> (\<exists>e. ys = [EvUpsert (the_cache_key jm) e])"
    using process_trace [of ev jm w] by blast
  have c: "backfill_calls (trace (snd (process ev jm w))) = backfill_calls (trace w)"
    using xs ys by (auto simp add: t backfill_calls_append)
  show ?thesis
    by (simp add: ERROR_CODES_TO_RETRY_def run_world b c a)
qed

text \<open>
  Claim C8. \<open>set_crashed\<close> and \<open>set_exceeded_maximum_duration\<close> write, for the job's key,
  an error entry with the job runner's version and the job's revision; the two error codes
  differ; and each writes exactly what the generic \<open>except\<close> clause of \<open>process\<close> writes
  for the same error.
\<close>

theorem crash_and_timeout_entries:
  "cache (set_crashed jm message cause w) (the_cache_key jm) =
     Some \<lparr>ce_content = JDict [(''error'', JStr message)],
           ce_http_status = error_status_code JobManagerCrashedError,
           ce_error_code = Some ''JobManagerCrashedError'',
           ce_details = Some (as_response_with_cause (CustomError JobManagerCrashedError message cause)),
           ce_job_runner_version = Some (jr_get_job_runner_version (jm_job_runner jm)),
           ce_dataset_git_revision = Some (jp_revision (jm_job_params jm)),
           ce_progress = None\<rparr>
   \<and> cache (set_exceeded_maximum_duration jm message cause w) (the_cache_key jm) =
     Some \<lparr>ce_content = JDict [(''error'', JStr message)],
           ce_http_status = error_status_code JobManagerExceededMaximumDurationError,
           ce_error_code = Some ''JobManagerExceededMaximumDurationError'',
           ce_details = Some (as_response_with_cause
              (CustomError JobManagerExceededMaximumDurationError message cause)),
           ce_job_runner_version = Some (jr_get_job_runner_version (jm_job_runner jm)),
           ce_dataset_git_revision = Some (jp_revision (jm_job_params jm)),
           ce_progress = None\<rparr>
   \<and> set_crashed jm message cause w =
       snd (process_except jm (CustomError JobManagerCrashedError message cause) w)
   \<and> set_exceeded_maximum_duration jm message cause w =
       snd (process_except jm (CustomError JobManagerExceededMaximumDurationError message cause) w)
   \<and> error_code JobManagerCrashedError \<noteq> error_code JobManagerExceededMaximumDurationError"
  by (simp add: set_crashed_def set_exceeded_maximum_duration_def cache_upsert the_cache_key_def
        Let_def)

subsection \<open>The paths of \<open>process\<close>\<close>

lemma process_try_body_computed:
  assumes "jr_pre_compute (jm_job_runner jm) (cache w) = None"
    and "parallel_check jm (cache w) = None"
    and "jr_compute (jm_job_runner jm) (cache w) = Inr res"
    and "orjson_dumps ev (jres_content res) = Inr bytes"
  shows "process_try_body ev jm w =
     (if int (length bytes) > wc_content_max_bytes (jm_worker_config jm)
      then Inl (CustomError TooBigContentError
                 (too_big_message (wc_content_max_bytes (jm_worker_config jm))) None)
      else Inr res,
      record_event EvCompute (record_event EvPreCompute w))"
  using assms by (simp add: process_try_body_def Let_def cache_record_event)

lemma process_try_finally_computed:
  assumes "jr_pre_compute (jm_job_runner jm) (cache w) = None"
    and "parallel_check jm (cache w) = None"
    and "jr_compute (jm_job_runner jm) (cache w) = Inr res"
    and "orjson_dumps ev (jres_content res) = Inr bytes"
    and "jr_post_compute (jm_job_runner jm) (cache w) = None"
  shows "process_try_finally ev jm w =
     (if int (length bytes) > wc_content_max_bytes (jm_worker_config jm)
      then Inl (CustomError TooBigContentError
                 (too_big_message (wc_content_max_bytes (jm_worker_config jm))) None)
      else Inr res,
      record_event EvPostCompute (record_event EvCompute (record_event EvPreCompute w)))"
  using assms(5)
  by (simp add: process_try_finally_def process_try_body_computed [OF assms(1-4)]
        Let_def cache_record_event)


lemma upserts_backfill:
  "upserts (trace (snd (backfill ev jm w))) = upserts (trace w)"
  by (simp add: backfill_trace upserts_append split: sum.split)

text \<open>
  Claim C6, as amended. When \<open>pre_compute\<close> returns, the parallel check does not
  short-circuit, \<open>compute\<close> returns a result whose serialized content is within the limit
  and \<open>post_compute\<close> returns, the one entry upserted for the job's key has status 200 (OK),
  the computed content, the job runner's version, the job's revision and the computed
  progress. \<open>process\<close> returns \<open>True\<close>; \<open>run\<close> returns \<open>True\<close> when the dataset state's
  backfill returns, and raises its exception otherwise.
\<close>

theorem success_entry:
  assumes "jr_pre_compute (jm_job_runner jm) (cache w) = None"
    and "parallel_check jm (cache w) = None"
    and "jr_compute (jm_job_runner jm) (cache w) = Inr res"
    and "orjson_dumps ev (jres_content res) = Inr bytes"
    and "int (length bytes) \<le> wc_content_max_bytes (jm_worker_config jm)"
    and "jr_post_compute (jm_job_runner jm) (cache w) = None"
  shows "fst (process ev jm w) = Inr True
    \<and> cache (snd (run ev jm w)) (the_cache_key jm) =
        Some \<lparr>ce_content = jres_content res, ce_http_status = 200,
              ce_error_code = None, ce_details = None,
              ce_job_runner_version = Some (jr_get_job_runner_version (jm_job_runner jm)),
              ce_dataset_git_revision = Some (jp_revision (jm_job_params jm)),
              ce_progress = Some (jres_progress res)\<rparr>
    \<and> upserts (trace (snd (run ev jm w))) = upserts (trace w) @
        [(the_cache_key jm,
          \<lparr>ce_content = jres_content res, ce_http_status = 200,
           ce_error_code = None, ce_details = None,
           ce_job_runner_version = Some (jr_get_job_runner_version (jm_job_runner jm)),
           ce_dataset_git_revision = Some (jp_revision (jm_job_params jm)),
           ce_progress = Some (jres_progress res)\<rparr>)]
    \<and> fst (run ev jm w) =
        (case dataset_state_backfill ev (the_backfill_args jm) (cache (snd (process ev jm w))) of
           Inl e \<Rightarrow> Inl e | Inr js \<Rightarrow> Inr True)"
proof -
  have f: "process_try_finally ev jm w =
      (Inr res, record_event EvPostCompute (record_event EvCompute (record_event EvPreCompute w)))"
    using process_try_finally_computed [OF assms(1-4) assms(6)] assms(5) by simp
  have p: "fst (process ev jm w) = Inr True"
    by (simp add: process_unfold f)
  have c: "cache (snd (process ev jm w)) (the_cache_key jm) =
        Some \<lparr>ce_content = jres_content res, ce_http_status = 200,
              ce_error_code = None, ce_details = None,
              ce_job_runner_version = Some (jr_get_job_runner_version (jm_job_runner jm)),
              ce_dataset_git_revision = Some (jp_revision (jm_job_params jm)),
              ce_progress = Some (jres_progress res)\<rparr>"
    by (simp add: process_unfold f cache_upsert the_cache_key_def HTTPStatus_OK_def)
  have u: "upserts (trace (snd (process ev jm w))) = upserts (trace w) @
        [(the_cache_key jm,
          \<lparr>ce_content = jres_content res, ce_http_status = 200,
           ce_error_code = None, ce_details = None,
           ce_job_runner_version = Some (jr_get_job_runner_version (jm_job_runner jm)),
           ce_dataset_git_revision = Some (jp_revision (jm_job_params jm)),
           ce_progress = Some (jres_progress res)\<rparr>)]"
    by (simp add: process_unfold f trace_upsert trace_record_event upserts_append
          the_cache_key_def HTTPStatus_OK_def)
  show ?thesis
    using p run_result [OF p] c u
    by (simp add: run_world backfill_cache upserts_backfill)
qed





subsection \<open>The parallel step\<close>

lemma parallel_check_fresh:
  assumes "jr_get_parallel_job_runner (jm_job_runner jm) = Some p"
    and "c (pjr_job_type p, jm_job_params jm) = Some e"
    and "ce_http_status e = 200"
    and "ce_job_runner_version e = Some (pjr_job_runner_version p)"
    and "ce_progress e = Some 1"
    and "ce_dataset_git_revision e = Some (jp_revision (jm_job_params jm))"
  shows "parallel_check jm c =
     Some (CustomError ResponseAlreadyComputedError
            (''Response has already been computed and stored in cache kind: ''
               @ pjr_job_type p @ ''. Compute will be skipped.'') None)"
  using assms
  by (simp add: parallel_check_def raise_if_parallel_response_exists_def
        get_response_without_content_params_def HTTPStatus_OK_def)


lemma process_try_body_short_circuit:
  assumes "jr_get_parallel_job_runner (jm_job_runner jm) = Some p"
    and "cache w (pjr_job_type p, jm_job_params jm) = Some e"
    and "ce_http_status e = 200"
    and "ce_job_runner_version e = Some (pjr_job_runner_version p)"
    and "ce_progress e = Some 1"
    and "ce_dataset_git_revision e = Some (jp_revision (jm_job_params jm))"
  shows "process_try_body ev jm w =
     (Inl (case jr_pre_compute (jm_job_runner jm) (cache w) of
             Some x \<Rightarrow> x
           | None \<Rightarrow> CustomError ResponseAlreadyComputedError
                (''Response has already been computed and stored in cache kind: ''
                   @ pjr_job_type p @ ''. Compute will be skipped.'') None),
      record_event EvPreCompute w)"
  using parallel_check_fresh [where c = "cache w", OF assms]
  by (simp add: process_try_body_def Let_def cache_record_event split: option.split)

text \<open>
  Claim C2, as amended. When the parallel step holds an entry for the same job parameters
  with status 200, the parallel job runner's version, progress 1.0 and the job's revision,
  \<open>process\<close> calls \<open>pre_compute\<close> and \<open>post_compute\<close> and never \<open>compute\<close>, and returns
  \<open>False\<close>: the \<open>ResponseAlreadyComputedError\<close> is handled as any other error. When both
  hooks return, the entry upserted for the job's key is the error entry of that exception.
\<close>

theorem parallel_response_short_circuit:
  assumes "jr_get_parallel_job_runner (jm_job_runner jm) = Some p"
    and "cache w (pjr_job_type p, jm_job_params jm) = Some e"
    and "ce_http_status e = 200"
    and "ce_job_runner_version e = Some (pjr_job_runner_version p)"
    and "ce_progress e = Some 1"
    and "ce_dataset_git_revision e = Some (jp_revision (jm_job_params jm))"
  shows "fst (process ev jm w) = Inr False
    \<and> (\<exists>ys. trace (snd (process ev jm w)) = trace w @ [EvPreCompute, EvPostCompute] @ ys
          \<and> (ys = [] \<or> (\<exists>x. ys = [EvUpsert (the_cache_key jm) x])))
    \<and> (jr_pre_compute (jm_job_runner jm) (cache w) = None
         \<and> jr_post_compute (jm_job_runner jm) (cache w) = None \<longrightarrow>
       cache (snd (process ev jm w)) (the_cache_key jm) =
         Some \<lparr>ce_content = JDict [(''error'', JStr
                  (''Response has already been computed and stored in cache kind: ''
                     @ pjr_job_type p @ ''. Compute will be skipped.''))],
               ce_http_status = error_status_code ResponseAlreadyComputedError,
               ce_error_code = Some ''ResponseAlreadyComputedError'',
               ce_details = Some [(''error'', JStr
                  (''Response has already been computed and stored in cache kind: ''
                     @ pjr_job_type p @ ''. Compute will be skipped.''))],
               ce_job_runner_version = Some (jr_get_job_runner_version (jm_job_runner jm)),
               ce_dataset_git_revision = Some (jp_revision (jm_job_params jm)),
               ce_progress = None\<rparr>)
    \<and> fst (run ev jm w) =
        (case dataset_state_backfill ev (the_backfill_args jm) (cache (snd (process ev jm w))) of
           Inl x \<Rightarrow> Inl x | Inr js \<Rightarrow> Inr False)"
proof -
  note b = process_try_body_short_circuit [OF assms, of ev]
  have w1: "snd (process_try_finally ev jm w) =
      record_event EvPostCompute (record_event EvPreCompute w)"
    by (simp add: process_try_finally_def b Let_def split: option.split)
  have "\<exists>err. fst (process_try_finally ev jm w) = Inl err"
    by (cases "jr_post_compute (jm_job_runner jm) (cache w)")
       (simp_all add: process_try_finally_def b Let_def cache_record_event)
  then obtain err where err: "fst (process_try_finally ev jm w) = Inl err" ..
  have p: "fst (process ev jm w) = Inr False"
    using process_except_shape [of jm err] by (simp add: process_unfold err)
  have t: "\<exists>ys. trace (snd (process ev jm w)) = trace w @ [EvPreCompute, EvPostCompute] @ ys
          \<and> (ys = [] \<or> (\<exists>x. ys = [EvUpsert (the_cache_key jm) x]))"
    using process_after_finally [of ev jm w] by (auto simp add: w1 trace_record_event)
  have c: "jr_pre_compute (jm_job_runner jm) (cache w) = None
         \<and> jr_post_compute (jm_job_runner jm) (cache w) = None \<longrightarrow>
       cache (snd (process ev jm w)) (the_cache_key jm) =
         Some \<lparr>ce_content = JDict [(''error'', JStr
                  (''Response has already been computed and stored in cache kind: ''
                     @ pjr_job_type p @ ''. Compute will be skipped.''))],
               ce_http_status = error_status_code ResponseAlreadyComputedError,
               ce_error_code = Some ''ResponseAlreadyComputedError'',
               ce_details = Some [(''error'', JStr
                  (''Response has already been computed and stored in cache kind: ''
                     @ pjr_job_type p @ ''. Compute will be skipped.''))],
               ce_job_runner_version = Some (jr_get_job_runner_version (jm_job_runner jm)),
               ce_dataset_git_revision = Some (jp_revision (jm_job_params jm)),
               ce_progress = None\<rparr>"
    by (simp add: process_unfold process_try_finally_def b Let_def cache_record_event
          cache_upsert the_cache_key_def)
  show ?thesis
    using p t c run_result [OF p] by blast
qed

subsection \<open>The concrete jobs\<close>

lemmas ex_defs =
  ex_env_def ex_env_backfill_raises_def ex_job_manager_def ex_runner_def ex_world_def
  ex_result_def ex_params_def ex_step_def ex_configs_of_def ex_runner_parallel_def
  ex_parallel_entry_def ex_world_parallel_def ex_runner_not_found_def ex_parent_def
  ex_parent_entry_def ex_runner_parent_error_def

lemmas run_defs =
  run_def backfill_def process_def process_try_finally_def process_try_body_def
  parallel_check_def raise_if_parallel_response_exists_def
  get_response_without_content_params_def record_event_def upsert_response_params_def
  the_backfill_args_def the_cache_key_def HTTPStatus_OK_def Let_def

text \<open>Claim C6, as amended, at a job that succeeds.\<close>

theorem success_entry_witness:
  "jr_compute (jm_job_runner (ex_job_manager ex_runner 100)) (cache ex_world) = Inr ex_result
   \<and> orjson_dumps ex_env (jres_content ex_result) = Inr ''[10,20,30]''
   \<and> fst (process ex_env (ex_job_manager ex_runner 100) ex_world) = Inr True
   \<and> fst (run ex_env (ex_job_manager ex_runner 100) ex_world) = Inr True
   \<and> cache (snd (run ex_env (ex_job_manager ex_runner 100) ex_world))
        (''dataset-info'', ex_params) =
       Some \<lparr>ce_content = JDict [(''rows'', JInt 3)], ce_http_status = 200,
             ce_error_code = None, ce_details = None,
             ce_job_runner_version = Some 2,
             ce_dataset_git_revision = Some ''rev1'',
             ce_progress = Some 1\<rparr>"
proof -
  let ?jm = "ex_job_manager ex_runner 100"
  have h1: "jr_pre_compute (jm_job_runner ?jm) (cache ex_world) = None"
    by (simp add: ex_defs)
  have h2: "parallel_check ?jm (cache ex_world) = None"
    by (simp add: ex_defs parallel_check_def)
  have h3: "jr_compute (jm_job_runner ?jm) (cache ex_world) = Inr ex_result"
    by (simp add: ex_defs)
  have h4: "orjson_dumps ex_env (jres_content ex_result) = Inr ''[10,20,30]''"
    by (simp add: ex_defs)
  have h5: "int (length ''[10,20,30]'') \<le> wc_content_max_bytes (jm_worker_config ?jm)"
    by (simp add: ex_defs)
  have h6: "jr_post_compute (jm_job_runner ?jm) (cache ex_world) = None"
    by (simp add: ex_defs)
  have k: "the_cache_key ?jm = (''dataset-info'', ex_params)"
    by (simp add: the_cache_key_def ex_job_manager_def ex_step_def)
  have v: "jr_get_job_runner_version (jm_job_runner ?jm) = 2"
    by (simp add: ex_job_manager_def ex_runner_def)
  have r: "jp_revision (jm_job_params ?jm) = ''rev1''"
    by (simp add: ex_job_manager_def ex_params_def)
  have x: "jres_content ex_result = JDict [(''rows'', JInt 3)]" "jres_progress ex_result = 1"
    by (simp_all add: ex_result_def)
  have b: "\<And>a c. dataset_state_backfill ex_env a c =
      Inr (planned_jobs (ex_configs_of c (ba_dataset a) (ba_revision a)) a c)"
    by (simp add: ex_env_def DatasetState_backfill_def)
  show ?thesis
    using success_entry [OF h1 h2 h3 h4 h5 h6] h3 h4
    by (simp add: k v r x b)
qed




text \<open>
  Claim C2 as stated fails: the parallel step \<open>dataset-info-from-parquet\<close> holds a fresh
  entry, the job's key has no entry before the run, and after it holds an error entry;
  \<open>run\<close> returns \<open>False\<close>.
\<close>

theorem parallel_response_counterexample:
  "jr_get_parallel_job_runner (jm_job_runner (ex_job_manager ex_runner_parallel 100)) =
      Some \<lparr>pjr_job_type = ''dataset-info-from-parquet'', pjr_job_runner_version = 3\<rparr>
   \<and> cache ex_world_parallel (''dataset-info-from-parquet'', ex_params) =
      Some \<lparr>ce_content = JDict [(''rows'', JInt 3)], ce_http_status = 200, ce_error_code = None,
            ce_details = None, ce_job_runner_version = Some 3,
            ce_dataset_git_revision = Some ''rev1'', ce_progress = Some 1\<rparr>
   \<and> jp_revision (jm_job_params (ex_job_manager ex_runner_parallel 100)) = ''rev1''
   \<and> cache ex_world_parallel (''dataset-info'', ex_params) = None
   \<and> cache (snd (run ex_env (ex_job_manager ex_runner_parallel 100) ex_world_parallel))
        (''dataset-info'', ex_params) =
      Some \<lparr>ce_content = JDict [(''error'', JStr
               ''Response has already been computed and stored in cache kind: dataset-info-from-parquet. Compute will be skipped.'')],
            ce_http_status = 500,
            ce_error_code = Some ''ResponseAlreadyComputedError'',
            ce_details = Some [(''error'', JStr
               ''Response has already been computed and stored in cache kind: dataset-info-from-parquet. Compute will be skipped.'')],
            ce_job_runner_version = Some 2,
            ce_dataset_git_revision = Some ''rev1'',
            ce_progress = None\<rparr>
   \<and> fst (run ex_env (ex_job_manager ex_runner_parallel 100) ex_world_parallel) = Inr False"
  by (simp add: ex_defs run_defs DatasetState_backfill_def)


text \<open>Claim C2, as amended, at the same job.\<close>

theorem parallel_response_short_circuit_witness:
  "cache ex_world_parallel (''dataset-info-from-parquet'', ex_params) = Some ex_parallel_entry
   \<and> fst (process ex_env (ex_job_manager ex_runner_parallel 100) ex_world_parallel) = Inr False
   \<and> cache (snd (process ex_env (ex_job_manager ex_runner_parallel 100) ex_world_parallel))
        (''dataset-info'', ex_params) =
      Some \<lparr>ce_content = JDict [(''error'', JStr
               (''Response has already been computed and stored in cache kind: ''
                  @ ''dataset-info-from-parquet'' @ ''. Compute will be skipped.''))],
            ce_http_status = 500,
            ce_error_code = Some ''ResponseAlreadyComputedError'',
            ce_details = Some [(''error'', JStr
               (''Response has already been computed and stored in cache kind: ''
                  @ ''dataset-info-from-parquet'' @ ''. Compute will be skipped.''))],
            ce_job_runner_version = Some 2,
            ce_dataset_git_revision = Some ''rev1'',
            ce_progress = None\<rparr>"
proof -
  let ?jm = "ex_job_manager ex_runner_parallel 100"
  let ?p = "\<lparr>pjr_job_type = ''dataset-info-from-parquet'', pjr_job_runner_version = 3\<rparr>"
  have h1: "jr_get_parallel_job_runner (jm_job_runner ?jm) = Some ?p"
    by (simp add: ex_job_manager_def ex_runner_parallel_def ex_runner_def)
  have h2: "cache ex_world_parallel (pjr_job_type ?p, jm_job_params ?jm) = Some ex_parallel_entry"
    by (simp add: ex_world_parallel_def ex_job_manager_def)
  have h3: "ce_http_status ex_parallel_entry = 200"
    by (simp add: ex_parallel_entry_def)
  have h4: "ce_job_runner_version ex_parallel_entry = Some (pjr_job_runner_version ?p)"
    by (simp add: ex_parallel_entry_def)
  have h5: "ce_progress ex_parallel_entry = Some 1"
    by (simp add: ex_parallel_entry_def)
  have h6: "ce_dataset_git_revision ex_parallel_entry = Some (jp_revision (jm_job_params ?jm))"
    by (simp add: ex_parallel_entry_def ex_job_manager_def ex_params_def)
  have pre: "jr_pre_compute (jm_job_runner ?jm) (cache ex_world_parallel) = None"
    by (simp add: ex_job_manager_def ex_runner_parallel_def ex_runner_def)
  have post: "jr_post_compute (jm_job_runner ?jm) (cache ex_world_parallel) = None"
    by (simp add: ex_job_manager_def ex_runner_parallel_def ex_runner_def)
  have k: "the_cache_key ?jm = (''dataset-info'', ex_params)"
    by (simp add: the_cache_key_def ex_job_manager_def ex_step_def)
  have v: "jr_get_job_runner_version (jm_job_runner ?jm) = 2"
    by (simp add: ex_job_manager_def ex_runner_parallel_def ex_runner_def)
  have r: "jp_revision (jm_job_params ?jm) = ''rev1''"
    by (simp add: ex_job_manager_def ex_params_def)
  have q: "(''dataset-info-from-parquet'', ex_params) = (pjr_job_type ?p, jm_job_params ?jm)"
    by (simp add: ex_job_manager_def)
  show ?thesis
    using parallel_response_short_circuit [OF h1 h2 h3 h4 h5 h6, of ex_env] pre post h2
    by (simp add: k v r q del: append.simps)
qed

subsection \<open>A \<open>post_compute\<close> hook that raises, a backfill that raises\<close>

lemmas ex_post_defs = ex_post_compute_raises_def ex_post_compute_entry_def




text \<open>
  Claim C6 as stated fails. \<open>compute\<close> succeeds with content within the limit, then
  \<open>post_compute\<close> raises: the entry written is an error entry with status 500 and \<open>run\<close>
  returns \<open>False\<close>. And with a \<open>post_compute\<close> that returns but a backfill that raises,
  \<open>process\<close> returns \<open>True\<close> and \<open>run\<close> raises instead of returning \<open>True\<close>.
\<close>

theorem success_counterexample:
  "jr_compute (jm_job_runner (ex_job_manager (ex_post_compute_raises ex_runner) 100))
       (cache ex_world) = Inr ex_result
   \<and> cache (snd (run ex_env (ex_job_manager (ex_post_compute_raises ex_runner) 100) ex_world))
        (''dataset-info'', ex_params) = Some ex_post_compute_entry
   \<and> ce_http_status ex_post_compute_entry = 500
   \<and> fst (run ex_env (ex_job_manager (ex_post_compute_raises ex_runner) 100) ex_world) =
       Inr False
   \<and> fst (process ex_env_backfill_raises (ex_job_manager ex_runner 50) ex_world) = Inr True
   \<and> fst (run ex_env_backfill_raises (ex_job_manager ex_runner 50) ex_world) =
       Inl (OtherException ''ConnectionError'' ''no server'')"
  by (simp add: ex_defs ex_post_defs run_defs DatasetState_backfill_def)

end
